theory Spec2Isabelle
  imports Main "HOL-Library.Word"
begin

section \<open>Go values\<close>

text \<open>
  Go's \<open>int\<close> is a 64-bit two's complement integer on the targets the operator is built
  for: \<open>+\<close> wraps around, and \<open>sint\<close> reads the signed value. A slice is either
  \<open>nil\<close> (\<open>None\<close>) or a sequence of elements (\<open>Some xs\<close>, possibly empty); the two
  are different values in Go and serialize differently. A string is a sequence of bytes.
\<close>

type_synonym go_int = "64 word"
type_synonym bytes = "8 word list"
type_synonym 'a slice = "'a list option"

text \<open>
  A call either stops with a run-time panic (\<open>Inl\<close>) or returns (\<open>Inr\<close>). A function
  with the results \<open>(T, error)\<close> returns a pair: the value, and \<open>None\<close> for the nil
  error or \<open>Some err\<close> for an error, kept as it is.
\<close>

datatype panic = MakesliceLenOutOfRange | NilDereference

text \<open>
  \<open>make([]T, n)\<close> panics with \<open>makeslice: len out of range\<close> when \<open>n\<close> is negative, and
  when \<open>n\<close> elements of the size of \<open>T\<close> take more bytes than the runtime's allocation
  limit, which is \<open>2^48\<close> bytes on the 64-bit targets. A string takes 16 bytes (a pointer
  and a length). \<open>Build\<close> also makes a slice of members and one of processes, and the
  declarations of these two structs are not part of the builder's file: their sizes in
  bytes are arguments.
\<close>

definition maxAlloc :: int where
  "maxAlloc = 281474976710656"

definition size_string :: nat where
  "size_string = 16"

record elem_sizes =
  size_member :: nat
  size_process :: nat

definition make_panics :: "nat \<Rightarrow> go_int \<Rightarrow> bool" where
  "make_panics elem_size n \<longleftrightarrow> sint n < 0 \<or> maxAlloc < int elem_size * sint n"

text \<open>The three calls of \<open>make\<close> in \<open>Build\<close> all return for the length \<open>n\<close>.\<close>

definition makes_return :: "elem_sizes \<Rightarrow> go_int \<Rightarrow> bool" where
  "makes_return sz n \<longleftrightarrow>
     0 \<le> sint n \<and> int size_string * sint n \<le> maxAlloc \<and>
     int (size_member sz) * sint n \<le> maxAlloc \<and> int (size_process sz) * sint n \<le> maxAlloc"

text \<open>\<open>append(s, x)\<close> for one element: the result is never nil.\<close>

fun append_slice :: "'a slice \<Rightarrow> 'a \<Rightarrow> 'a slice" where
  "append_slice None x = Some [x]"
| "append_slice (Some xs) x = Some (xs @ [x])"

text \<open>\<open>bytes.Compare\<close>: lexicographic comparison, \<open>0\<close> exactly on equal slices.\<close>

fun bytes_Compare :: "bytes \<Rightarrow> bytes \<Rightarrow> int" where
  "bytes_Compare [] [] = 0"
| "bytes_Compare [] (y # ys) = - 1"
| "bytes_Compare (x # xs) [] = 1"
| "bytes_Compare (x # xs) (y # ys) =
     (if x < y then - 1 else if y < x then 1 else bytes_Compare xs ys)"

text \<open>The verb \<open>%d\<close> of \<open>fmt.Sprintf\<close> on an \<open>int\<close>: decimal digits, a sign when negative.\<close>

definition digit_char :: "nat \<Rightarrow> char" where
  "digit_char d = ''0123456789'' ! d"

fun digits :: "nat \<Rightarrow> string" where
  "digits n = (if n < 10 then [digit_char n] else digits (n div 10) @ [digit_char (n mod 10)])"

declare digits.simps [simp del]

definition fmt_d :: "go_int \<Rightarrow> string" where
  "fmt_d i = (if sint i < 0 then CHR ''-'' # digits (nat (- sint i)) else digits (nat (sint i)))"


section \<open>The document\<close>

text \<open>
  Modelled from the spec: the struct declarations of the document, which are not part of
  the builder's file. They follow the specification's data model, with the field names the
  builder's code uses where it names them (\<open>Args26.Net.SSL\<close>, \<open>FeatureCompatibilityVersion\<close>,
  \<open>Builds\<close>, \<open>Modules\<close>, \<open>DownloadBase\<close>, \<open>ClientCertificateMode\<close>, \<open>CAFilePath\<close>, the
  fields of \<open>AutomationConfig\<close>, \<open>ReplicaSet\<close> and \<open>MongoDBSSL\<close>).
\<close>

type_synonym SSLMode = string

text \<open>Modelled from the spec: the constant \<open>SSLModeDisabled\<close>, the SSL mode "disabled".\<close>

definition SSLModeDisabled :: SSLMode where
  "SSLModeDisabled = ''disabled''"

text \<open>Modelled from the spec: the constant \<open>ClientCertificateModeOptional\<close>, the
  client-certificate mode "Optional".\<close>

definition ClientCertificateModeOptional :: string where
  "ClientCertificateModeOptional = ''Optional''"

record MongoDBSSL =
  Mode :: SSLMode
  CAFile :: string
  PEMKeyFile :: string
  AllowConnectionsWithoutCertificate :: bool

record Net =
  SSL :: MongoDBSSL

record Args26 =
  Net :: Net

text \<open>Modelled from the spec: the struct \<open>Process\<close>, with the attributes of the data model
  (process name, fully-qualified hostname, MongoDB version, logical replica-set name,
  feature-compatibility version, network/TLS arguments).\<close>

record Process =
  Name :: string
  HostName :: string
  Version :: string
  ReplicaSetName :: string
  FeatureCompatibilityVersion :: string
  Args26 :: Args26

text \<open>Modelled from the spec: the struct \<open>ReplicaSetMember\<close>, which pairs a process
  reference with a numeric member id.\<close>

record ReplicaSetMember =
  Id :: go_int
  ProcessRef :: Process

record ReplicaSet =
  Id :: string
  Members :: "ReplicaSetMember slice"
  ProtocolVersion :: string

text \<open>Modelled from the spec: a build variant of a catalog entry carries a list of enabled
  modules, and a catalog entry describes one installable MongoDB version and its build
  variants.\<close>

record BuildConfig =
  Modules :: "string slice"

record MongoDbVersionConfig =
  Name :: string
  Builds :: "BuildConfig slice"

record Options =
  DownloadBase :: string

record SSL =
  ClientCertificateMode :: string
  CAFilePath :: string

text \<open>The type \<open>Auth\<close> is opaque to the builder: it is the type parameter \<open>'auth\<close>.\<close>

record 'auth AutomationConfig =
  Version :: go_int
  Processes :: "Process slice"
  ReplicaSets :: "ReplicaSet slice"
  Versions :: "MongoDbVersionConfig slice"
  Options :: Options
  Auth :: 'auth
  SSL :: SSL

text \<open>The zero values of the structs, which \<open>make\<close> fills a new slice with.\<close>

definition zero_MongoDBSSL :: MongoDBSSL where
  "zero_MongoDBSSL =
     \<lparr>Mode = '''', CAFile = '''', PEMKeyFile = '''', AllowConnectionsWithoutCertificate = False\<rparr>"

definition zero_Process :: Process where
  "zero_Process =
     \<lparr>Process.Name = '''', HostName = '''', Process.Version = '''', ReplicaSetName = '''',
      FeatureCompatibilityVersion = '''',
      Args26 = \<lparr>Net = \<lparr>Net.SSL = zero_MongoDBSSL\<rparr>\<rparr>\<rparr>"

definition zero_ReplicaSetMember :: ReplicaSetMember where
  "zero_ReplicaSetMember = \<lparr>ReplicaSetMember.Id = 0, ProcessRef = zero_Process\<rparr>"

definition zero_AutomationConfig :: "'auth \<Rightarrow> 'auth AutomationConfig" where
  "zero_AutomationConfig zero_Auth =
     \<lparr>AutomationConfig.Version = 0, Processes = None, ReplicaSets = None, Versions = None,
      Options = \<lparr>DownloadBase = ''''\<rparr>, Auth = zero_Auth,
      AutomationConfig.SSL = \<lparr>ClientCertificateMode = '''', CAFilePath = ''''\<rparr>\<rparr>"


section \<open>Processes and members\<close>

text \<open>Modelled from the spec: the constructor \<open>newProcess\<close>. A freshly constructed process
  holds its name, hostname, MongoDB version and replica-set name and no TLS arguments; the
  configuration steps are then applied to it in their order.\<close>

definition newProcess ::
  "string \<Rightarrow> string \<Rightarrow> string \<Rightarrow> string \<Rightarrow> (Process \<Rightarrow> Process) list \<Rightarrow> Process" where
  "newProcess name hostName version replSetName opts =
     foldl (\<lambda>process opt. opt process)
       \<lparr>Process.Name = name, HostName = hostName, Process.Version = version,
        ReplicaSetName = replSetName, FeatureCompatibilityVersion = '''',
        Args26 = \<lparr>Net = \<lparr>Net.SSL = zero_MongoDBSSL\<rparr>\<rparr>\<rparr>
       opts"

text \<open>Modelled from the spec: the constructor \<open>newReplicaSetMember\<close>, the membership
  record of a process under the given member id.\<close>

definition newReplicaSetMember :: "Process \<Rightarrow> go_int \<Rightarrow> ReplicaSetMember" where
  "newReplicaSetMember process id' = \<lparr>ReplicaSetMember.Id = id', ProcessRef = process\<rparr>"

definition toHostName :: "string \<Rightarrow> go_int \<Rightarrow> string" where
  "toHostName name index = name @ ''-'' @ fmt_d index"

definition withFCV :: "string \<Rightarrow> Process \<Rightarrow> Process" where
  "withFCV fcv = (\<lambda>process. process\<lparr>FeatureCompatibilityVersion := fcv\<rparr>)"

definition withTLS :: "string \<Rightarrow> string \<Rightarrow> SSLMode \<Rightarrow> Process \<Rightarrow> Process" where
  "withTLS caFile tlsKeyFile mode =
     (\<lambda>process. process\<lparr>Args26 := (Args26 process)\<lparr>Net := (Net (Args26 process))\<lparr>Net.SSL :=
        \<lparr>Mode = mode, CAFile = caFile, PEMKeyFile = tlsKeyFile,
         AllowConnectionsWithoutCertificate = True\<rparr>\<rparr>\<rparr>\<rparr>)"


section \<open>The builder\<close>

type_synonym Topology = string

definition ReplicaSetTopology :: Topology where
  "ReplicaSetTopology = ''ReplicaSet''"

text \<open>
  An \<open>Enabler\<close> is an interface value: nil (\<open>None\<close>), or an object whose \<open>Enable\<close> maps an
  \<open>Auth\<close> to an \<open>Auth\<close> or to an error.
\<close>

type_synonym ('auth, 'e) Enabler = "('auth \<Rightarrow> 'e + 'auth) option"

record ('auth, 'e) Builder =
  enabler :: "('auth, 'e) Enabler"
  processes :: "Process slice"
  replicaSets :: "ReplicaSet slice"
  version :: go_int
  auth :: 'auth
  members :: go_int
  domain :: string
  name :: string
  fcv :: string
  topology :: Topology
  mongodbVersion :: string
  previousAC :: "'auth AutomationConfig"
  tlsCAFile :: string
  tlsCertAndKeyFile :: string
  tlsMode :: SSLMode
  versions :: "MongoDbVersionConfig slice"

text \<open>\<open>NewBuilder\<close>: three empty slices, every other field at its zero value. The zero
  value of the opaque \<open>Auth\<close> is the argument.\<close>

definition NewBuilder :: "'auth \<Rightarrow> ('auth, 'e) Builder" where
  "NewBuilder zero_Auth =
     \<lparr>enabler = None, processes = Some [], replicaSets = Some [], version = 0,
      auth = zero_Auth, members = 0, domain = '''', name = '''', fcv = '''', topology = '''',
      mongodbVersion = '''', previousAC = zero_AutomationConfig zero_Auth,
      tlsCAFile = '''', tlsCertAndKeyFile = '''', tlsMode = '''', versions = Some []\<rparr>"

definition SetEnabler :: "('auth, 'e) Enabler \<Rightarrow> ('auth, 'e) Builder \<Rightarrow> ('auth, 'e) Builder" where
  "SetEnabler enabler' b = b\<lparr>enabler := enabler'\<rparr>"

definition SetTopology :: "Topology \<Rightarrow> ('auth, 'e) Builder \<Rightarrow> ('auth, 'e) Builder" where
  "SetTopology topology' b = b\<lparr>topology := topology'\<rparr>"

definition SetMembers :: "go_int \<Rightarrow> ('auth, 'e) Builder \<Rightarrow> ('auth, 'e) Builder" where
  "SetMembers members' b = b\<lparr>members := members'\<rparr>"

definition SetDomain :: "string \<Rightarrow> ('auth, 'e) Builder \<Rightarrow> ('auth, 'e) Builder" where
  "SetDomain domain' b = b\<lparr>domain := domain'\<rparr>"

definition SetName :: "string \<Rightarrow> ('auth, 'e) Builder \<Rightarrow> ('auth, 'e) Builder" where
  "SetName name' b = b\<lparr>name := name'\<rparr>"

definition SetFCV :: "string \<Rightarrow> ('auth, 'e) Builder \<Rightarrow> ('auth, 'e) Builder" where
  "SetFCV fcv' b = b\<lparr>fcv := fcv'\<rparr>"

definition SetTLS ::
  "string \<Rightarrow> string \<Rightarrow> SSLMode \<Rightarrow> ('auth, 'e) Builder \<Rightarrow> ('auth, 'e) Builder" where
  "SetTLS caFile certAndKeyFile mode b =
     b\<lparr>tlsCAFile := caFile, tlsCertAndKeyFile := certAndKeyFile, tlsMode := mode\<rparr>"

definition isTLSEnabled :: "('auth, 'e) Builder \<Rightarrow> bool" where
  "isTLSEnabled b \<longleftrightarrow>
     tlsCAFile b \<noteq> '''' \<and> tlsCertAndKeyFile b \<noteq> '''' \<and> tlsMode b \<noteq> SSLModeDisabled"

text \<open>
  \<open>AddVersion\<close>: the loop runs over the indices of \<open>version.Builds\<close> (no index when the
  slice is nil) and replaces a nil module list by an empty one in place; the entry is then
  appended to the catalog.
\<close>

definition normalize_Modules :: "BuildConfig list \<Rightarrow> BuildConfig list" where
  "normalize_Modules builds =
     foldl (\<lambda>bs idx. if Modules (bs ! idx) = None then bs[idx := (bs ! idx)\<lparr>Modules := Some []\<rparr>]
                      else bs)
       builds [0..<length builds]"

definition AddVersion ::
  "MongoDbVersionConfig \<Rightarrow> ('auth, 'e) Builder \<Rightarrow> ('auth, 'e) Builder" where
  "AddVersion version' b =
     (let version' = (case Builds version' of
                        None \<Rightarrow> version'
                      | Some builds \<Rightarrow> version'\<lparr>Builds := Some (normalize_Modules builds)\<rparr>)
      in b\<lparr>versions := append_slice (versions b) version'\<rparr>)"

definition SetMongoDBVersion :: "string \<Rightarrow> ('auth, 'e) Builder \<Rightarrow> ('auth, 'e) Builder" where
  "SetMongoDBVersion version' b = b\<lparr>mongodbVersion := version'\<rparr>"

definition SetPreviousAutomationConfig ::
  "'auth AutomationConfig \<Rightarrow> ('auth, 'e) Builder \<Rightarrow> ('auth, 'e) Builder" where
  "SetPreviousAutomationConfig previousAC' b = b\<lparr>previousAC := previousAC'\<rparr>"


section \<open>Build\<close>

text \<open>
  The first loop of \<open>Build\<close>: \<open>hostnames\<close> is made with \<open>n\<close> empty strings and filled by
  index, for \<open>i\<close> from \<open>0\<close> while \<open>i < b.members\<close>. The counter stays below
  \<open>b.members\<close>, so it is a natural number here and \<open>of_nat i\<close> is its value as a Go int.
\<close>

definition derive_hostnames :: "('auth, 'e) Builder \<Rightarrow> nat \<Rightarrow> string list" where
  "derive_hostnames b n =
     foldl (\<lambda>hostnames i. hostnames[i := name b @ ''-'' @ fmt_d (of_nat i) @ ''.'' @ domain b])
       (replicate n '''') [0..<n]"

text \<open>
  The second loop: for every index and hostname, the options are collected (the
  feature-compatibility version, then TLS when it is enabled), the process is constructed
  and stored with its member at the same index.
\<close>

definition process_opts :: "('auth, 'e) Builder \<Rightarrow> (Process \<Rightarrow> Process) list" where
  "process_opts b =
     (let opts = [withFCV (fcv b)]
      in if isTLSEnabled b
         then opts @ [withTLS (tlsCAFile b) (tlsCertAndKeyFile b) (tlsMode b)]
         else opts)"

definition derive_processes ::
  "('auth, 'e) Builder \<Rightarrow> string list \<Rightarrow> ReplicaSetMember list \<times> Process list" where
  "derive_processes b hostnames =
     foldl (\<lambda>(members', processes') (i, h).
              let process = newProcess (toHostName (name b) (of_nat i)) h (mongodbVersion b)
                              (name b) (process_opts b)
              in (members'[i := newReplicaSetMember process (of_nat i)],
                  processes'[i := process]))
       (replicate (length hostnames) zero_ReplicaSetMember,
        replicate (length hostnames) zero_Process)
       (enumerate 0 hostnames)"

text \<open>The document as assembled before the comparison, TLS of the agent included.\<close>

definition assemble ::
  "('auth, 'e) Builder \<Rightarrow> ReplicaSetMember list \<Rightarrow> Process list \<Rightarrow> 'auth \<Rightarrow>
     'auth AutomationConfig" where
  "assemble b members' processes' auth' =
     (let currentAc =
        \<lparr>AutomationConfig.Version = AutomationConfig.Version (previousAC b),
         Processes = Some processes',
         ReplicaSets = Some [\<lparr>ReplicaSet.Id = name b, Members = Some members',
                              ProtocolVersion = ''1''\<rparr>],
         Versions = versions b,
         Options = \<lparr>DownloadBase = ''/var/lib/mongodb-mms-automation''\<rparr>,
         Auth = auth',
         AutomationConfig.SSL =
           \<lparr>ClientCertificateMode = ClientCertificateModeOptional, CAFilePath = ''''\<rparr>\<rparr>
      in if isTLSEnabled b
         then currentAc\<lparr>AutomationConfig.SSL :=
                (AutomationConfig.SSL currentAc)\<lparr>CAFilePath := tlsCAFile b\<rparr>\<rparr>
         else currentAc)"

text \<open>
  \<open>Build\<close>. \<open>DisabledAuth\<close> (the value the function of that name returns) and
  \<open>json_Marshal\<close> (the encoder, on the document type with its field tags) are not part
  of the builder's file and are arguments, as are the sizes of the two structs and the
  zero value of the opaque \<open>Auth\<close>, which is the \<open>Auth\<close> of the literal
  \<open>AutomationConfig{}\<close> returned beside an error. Each \<open>make\<close> panics on a length that is
  negative or too large, before the loop that fills its slice, and calling \<open>Enable\<close> on a
  nil interface panics.
\<close>

definition Build ::
  "elem_sizes \<Rightarrow> 'auth \<Rightarrow> 'auth \<Rightarrow> ('auth AutomationConfig \<Rightarrow> 'e + bytes) \<Rightarrow>
     ('auth, 'e) Builder \<Rightarrow> panic + ('auth AutomationConfig \<times> 'e option)" where
  "Build sz zero_Auth DisabledAuth json_Marshal b =
     (if make_panics size_string (members b) then Inl MakesliceLenOutOfRange
      else
        let hostnames = derive_hostnames b (nat (sint (members b)))
        in if make_panics (size_member sz) (members b) \<or>
              make_panics (size_process sz) (members b)
           then Inl MakesliceLenOutOfRange
           else
             let (members', processes') = derive_processes b hostnames
             in (case enabler b of
                   None \<Rightarrow> Inl NilDereference
                 | Some enable \<Rightarrow>
                     (case enable DisabledAuth of
                        Inl err \<Rightarrow> Inr (zero_AutomationConfig zero_Auth, Some err)
                      | Inr auth' \<Rightarrow>
                          let currentAc = assemble b members' processes' auth'
                          in (case json_Marshal (previousAC b) of
                                Inl err \<Rightarrow> Inr (zero_AutomationConfig zero_Auth, Some err)
                              | Inr newAcBytes \<Rightarrow>
                                  (case json_Marshal currentAc of
                                     Inl err \<Rightarrow> Inr (zero_AutomationConfig zero_Auth, Some err)
                                   | Inr currentAcBytes \<Rightarrow>
                                       if bytes_Compare newAcBytes currentAcBytes \<noteq> 0
                                       then Inr (currentAc\<lparr>AutomationConfig.Version :=
                                                   AutomationConfig.Version currentAc + 1\<rparr>,
                                                 None)
                                       else Inr (currentAc, None))))))"


section \<open>Configured builders\<close>

text \<open>
  The fields of a builder are private: outside the package a builder is \<open>NewBuilder()\<close>
  followed by calls of its setters, in any order and number.
\<close>

datatype ('auth, 'e) call =
    Call_SetEnabler "('auth, 'e) Enabler"
  | Call_SetTopology Topology
  | Call_SetMembers go_int
  | Call_SetDomain string
  | Call_SetName string
  | Call_SetFCV string
  | Call_SetTLS string string SSLMode
  | Call_AddVersion MongoDbVersionConfig
  | Call_SetMongoDBVersion string
  | Call_SetPreviousAutomationConfig "'auth AutomationConfig"

fun apply_call :: "('auth, 'e) call \<Rightarrow> ('auth, 'e) Builder \<Rightarrow> ('auth, 'e) Builder" where
  "apply_call (Call_SetEnabler e) b = SetEnabler e b"
| "apply_call (Call_SetTopology t) b = SetTopology t b"
| "apply_call (Call_SetMembers n) b = SetMembers n b"
| "apply_call (Call_SetDomain d) b = SetDomain d b"
| "apply_call (Call_SetName n) b = SetName n b"
| "apply_call (Call_SetFCV f) b = SetFCV f b"
| "apply_call (Call_SetTLS ca key mode) b = SetTLS ca key mode b"
| "apply_call (Call_AddVersion v) b = AddVersion v b"
| "apply_call (Call_SetMongoDBVersion v) b = SetMongoDBVersion v b"
| "apply_call (Call_SetPreviousAutomationConfig ac) b = SetPreviousAutomationConfig ac b"

definition configured :: "'auth \<Rightarrow> ('auth, 'e) call list \<Rightarrow> ('auth, 'e) Builder" where
  "configured zero_Auth calls = foldl (\<lambda>b c. apply_call c b) (NewBuilder zero_Auth) calls"


section \<open>A sample encoder\<close>

text \<open>
  The theorems below hold for every encoder. To run \<open>Build\<close> on concrete builders, here
  is one total encoder in the style of JSON, for documents whose \<open>Auth\<close> is a string:
  every field is written, in a fixed order, a nil slice as \<open>null\<close>.
\<close>

definition bytes_of :: "string \<Rightarrow> bytes" where
  "bytes_of s = map of_char s"

definition enc_string :: "string \<Rightarrow> string" where
  "enc_string s = ''\"'' @ s @ ''\"''"

fun enc_seq :: "('a \<Rightarrow> string) \<Rightarrow> 'a list \<Rightarrow> string" where
  "enc_seq f [] = ''''"
| "enc_seq f [x] = f x"
| "enc_seq f (x # y # ys) = f x @ '','' @ enc_seq f (y # ys)"

fun enc_slice :: "('a \<Rightarrow> string) \<Rightarrow> 'a slice \<Rightarrow> string" where
  "enc_slice f None = ''null''"
| "enc_slice f (Some xs) = ''['' @ enc_seq f xs @ '']''"

definition enc_bool :: "bool \<Rightarrow> string" where
  "enc_bool x = (if x then ''true'' else ''false'')"

definition enc_MongoDBSSL :: "MongoDBSSL \<Rightarrow> string" where
  "enc_MongoDBSSL x =
     ''{'' @ enc_seq id [enc_string (Mode x), enc_string (CAFile x), enc_string (PEMKeyFile x),
                        enc_bool (AllowConnectionsWithoutCertificate x)] @ ''}''"

definition enc_Process :: "Process \<Rightarrow> string" where
  "enc_Process p =
     ''{'' @ enc_seq id [enc_string (Process.Name p), enc_string (HostName p),
                        enc_string (Process.Version p), enc_string (ReplicaSetName p),
                        enc_string (FeatureCompatibilityVersion p),
                        enc_MongoDBSSL (Net.SSL (Net (Args26 p)))] @ ''}''"

definition enc_ReplicaSetMember :: "ReplicaSetMember \<Rightarrow> string" where
  "enc_ReplicaSetMember x =
     ''{'' @ fmt_d (ReplicaSetMember.Id x) @ '','' @ enc_string (Process.Name (ProcessRef x)) @ ''}''"

definition enc_ReplicaSet :: "ReplicaSet \<Rightarrow> string" where
  "enc_ReplicaSet r =
     ''{'' @ enc_seq id [enc_string (ReplicaSet.Id r), enc_slice enc_ReplicaSetMember (Members r),
                        enc_string (ProtocolVersion r)] @ ''}''"

definition enc_MongoDbVersionConfig :: "MongoDbVersionConfig \<Rightarrow> string" where
  "enc_MongoDbVersionConfig v =
     ''{'' @ enc_string (MongoDbVersionConfig.Name v) @ '','' @
       enc_slice (\<lambda>bd. enc_slice enc_string (Modules bd)) (Builds v) @ ''}''"

definition sample_Marshal :: "string AutomationConfig \<Rightarrow> string + bytes" where
  "sample_Marshal ac =
     Inr (bytes_of
       (''{'' @ enc_seq id
          [fmt_d (AutomationConfig.Version ac),
           enc_slice enc_Process (Processes ac),
           enc_slice enc_ReplicaSet (ReplicaSets ac),
           enc_slice enc_MongoDbVersionConfig (Versions ac),
           enc_string (DownloadBase (Options ac)),
           enc_string (Auth ac),
           enc_string (ClientCertificateMode (AutomationConfig.SSL ac)),
           enc_string (CAFilePath (AutomationConfig.SSL ac))] @ ''}''))"

text \<open>Sizes for the two structs, for the sample runs.\<close>

definition sample_sizes :: elem_sizes where
  "sample_sizes = \<lparr>size_member = 40, size_process = 256\<rparr>"

text \<open>A builder for the deployment \<open>foo\<close> in the domain \<open>example.com\<close>, with an
  enabler that returns the authentication state it is given.\<close>

definition sample_Builder :: "go_int \<Rightarrow> (string, string) Builder" where
  "sample_Builder n =
     SetMongoDBVersion ''4.2.2'' (SetFCV ''4.2'' (SetDomain ''example.com'' (SetName ''foo''
       (SetMembers n (SetTopology ReplicaSetTopology (SetEnabler (Some Inr)
         (NewBuilder '''')))))))"

section \<open>Names for the local variables of Build\<close>

abbreviation built_hostnames :: "('auth, 'e) Builder \<Rightarrow> string list" where
  "built_hostnames b \<equiv> derive_hostnames b (nat (sint (members b)))"

abbreviation built_members :: "('auth, 'e) Builder \<Rightarrow> ReplicaSetMember list" where
  "built_members b \<equiv> fst (derive_processes b (built_hostnames b))"

abbreviation built_processes :: "('auth, 'e) Builder \<Rightarrow> Process list" where
  "built_processes b \<equiv> snd (derive_processes b (built_hostnames b))"


section \<open>Catalog entries with non-null module lists\<close>

text \<open>Every build variant of the entry carries a module list that is not nil (an entry
  whose \<open>Builds\<close> is nil has no build variant).\<close>

definition modules_non_null :: "MongoDbVersionConfig \<Rightarrow> bool" where
  "modules_non_null v =
     (case Builds v of None \<Rightarrow> True | Some builds \<Rightarrow> list_all (\<lambda>bd. Modules bd \<noteq> None) builds)"

text \<open>The catalog of a builder is a slice that is not nil and holds such entries only.\<close>

definition catalog_ok :: "MongoDbVersionConfig slice \<Rightarrow> bool" where
  "catalog_ok c = (case c of None \<Rightarrow> False | Some vs \<Rightarrow> list_all modules_non_null vs)"


section \<open>Reading decimal digits\<close>

text \<open>The number that a string of decimal digits denotes, to state that \<open>digits\<close> writes
  the decimal numeral of its argument.\<close>

definition decimal_value :: "string \<Rightarrow> nat" where
  "decimal_value s = foldl (\<lambda>acc c. 10 * acc + (of_char c - 48)) 0 s"


section \<open>Sample documents\<close>

text \<open>The processes and the document of the deployment \<open>foo\<close> with two members, as
  \<open>sample_Builder 2\<close> describes them, for a version counter, a TLS block of the processes
  and a CA file path of the agent.\<close>

definition foo_Process :: "string \<Rightarrow> MongoDBSSL \<Rightarrow> Process" where
  "foo_Process i tls =
     \<lparr>Process.Name = ''foo-'' @ i, HostName = ''foo-'' @ i @ ''.example.com'',
      Process.Version = ''4.2.2'', ReplicaSetName = ''foo'',
      FeatureCompatibilityVersion = ''4.2'', Args26 = \<lparr>Net = \<lparr>Net.SSL = tls\<rparr>\<rparr>\<rparr>"

definition foo_document :: "go_int \<Rightarrow> MongoDBSSL \<Rightarrow> string \<Rightarrow> string AutomationConfig" where
  "foo_document v tls ca =
     \<lparr>AutomationConfig.Version = v,
      Processes = Some [foo_Process ''0'' tls, foo_Process ''1'' tls],
      ReplicaSets = Some [\<lparr>ReplicaSet.Id = ''foo'',
        Members = Some [\<lparr>ReplicaSetMember.Id = 0, ProcessRef = foo_Process ''0'' tls\<rparr>,
                        \<lparr>ReplicaSetMember.Id = 1, ProcessRef = foo_Process ''1'' tls\<rparr>],
        ProtocolVersion = ''1''\<rparr>],
      Versions = Some [],
      Options = \<lparr>DownloadBase = ''/var/lib/mongodb-mms-automation''\<rparr>,
      Auth = ''disabled'',
      AutomationConfig.SSL = \<lparr>ClientCertificateMode = ''Optional'', CAFilePath = ca\<rparr>\<rparr>"

definition server_TLS :: MongoDBSSL where
  "server_TLS = \<lparr>Mode = ''requireSSL'', CAFile = ''/ca.pem'', PEMKeyFile = ''/server.pem'',
                 AllowConnectionsWithoutCertificate = True\<rparr>"

text \<open>A catalog entry with two build variants, the first with a nil module list, and the
  entry as the catalog stores it.\<close>

definition sample_version :: MongoDbVersionConfig where
  "sample_version =
     \<lparr>MongoDbVersionConfig.Name = ''4.2.2'',
      Builds = Some [\<lparr>Modules = None\<rparr>, \<lparr>Modules = Some [''enterprise'']\<rparr>]\<rparr>"

definition stored_version :: MongoDbVersionConfig where
  "stored_version =
     \<lparr>MongoDbVersionConfig.Name = ''4.2.2'',
      Builds = Some [\<lparr>Modules = Some []\<rparr>, \<lparr>Modules = Some [''enterprise'']\<rparr>]\<rparr>"


section \<open>The loops of Build\<close>

lemma bytes_Compare_eq_0: "bytes_Compare a b = 0 \<longleftrightarrow> a = b"
  by (induction a b rule: bytes_Compare.induct) auto

lemma update_head_drop:
  "k < length xs \<Longrightarrow> (drop k xs)[0 := v] = v # drop (Suc k) xs"
  by (metis Cons_nth_drop_Suc list_update_code(2))

text \<open>Filling a slice by index, from the left, up to \<open>k\<close>.\<close>

lemma foldl_update_upt:
  "k \<le> length xs \<Longrightarrow>
   foldl (\<lambda>ys i. ys[i := f i]) xs [0..<k] = map f [0..<k] @ drop k xs"
proof (induction k)
  case 0
  then show ?case by simp
next
  case (Suc k)
  then have "foldl (\<lambda>ys i. ys[i := f i]) xs [0..<Suc k] = (map f [0..<k] @ drop k xs)[k := f k]"
    by simp
  also have "\<dots> = map f [0..<k] @ (drop k xs)[0 := f k]"
    by (simp add: list_update_append)
  finally show ?case
    using Suc.prems by (simp add: update_head_drop)
qed

lemma derive_hostnames_map:
  "derive_hostnames b n =
     map (\<lambda>i. name b @ ''-'' @ fmt_d (of_nat i) @ ''.'' @ domain b) [0..<n]"
  unfolding derive_hostnames_def by (subst foldl_update_upt) simp_all

text \<open>Filling two slices by index while ranging over a third.\<close>

lemma foldl_update_enumerate:
  "k \<le> length hs \<Longrightarrow> length ms = length hs \<Longrightarrow> length ps = length hs \<Longrightarrow>
   foldl (\<lambda>(ms', ps') (i, h). (ms'[i := M i h], ps'[i := P i h])) (ms, ps)
     (enumerate 0 (take k hs)) =
   (map (\<lambda>i. M i (hs ! i)) [0..<k] @ drop k ms, map (\<lambda>i. P i (hs ! i)) [0..<k] @ drop k ps)"
proof (induction k)
  case 0
  then show ?case by simp
next
  case (Suc k)
  then have k: "k < length hs" "k < length ms" "k < length ps" by simp_all
  have "enumerate 0 (take (Suc k) hs) = enumerate 0 (take k hs) @ [(k, hs ! k)]"
    using k by (simp add: take_Suc_conv_app_nth enumerate_append_eq min_def)
  then show ?case
    using Suc k by (simp add: list_update_append update_head_drop)
qed

lemma derive_processes_map:
  "derive_processes b hs =
     (map (\<lambda>i. newReplicaSetMember
                 (newProcess (toHostName (name b) (of_nat i)) (hs ! i) (mongodbVersion b)
                    (name b) (process_opts b)) (of_nat i)) [0..<length hs],
      map (\<lambda>i. newProcess (toHostName (name b) (of_nat i)) (hs ! i) (mongodbVersion b)
                    (name b) (process_opts b)) [0..<length hs])"
  unfolding derive_processes_def Let_def
  using foldl_update_enumerate [of "length hs" hs "replicate (length hs) zero_ReplicaSetMember"
      "replicate (length hs) zero_Process"]
  by simp

text \<open>The process and the member that \<open>Build\<close> stores at index \<open>i\<close>.\<close>

lemma built_processes:
  "built_processes b =
     map (\<lambda>i. newProcess (toHostName (name b) (of_nat i))
                 (name b @ ''-'' @ fmt_d (of_nat i) @ ''.'' @ domain b) (mongodbVersion b)
                 (name b) (process_opts b))
       [0..<nat (sint (members b))]"
  by (simp add: derive_processes_map derive_hostnames_map)

lemma built_members:
  "built_members b =
     map (\<lambda>i. newReplicaSetMember (built_processes b ! i) (of_nat i))
       [0..<nat (sint (members b))]"
  by (simp add: derive_processes_map derive_hostnames_map)

lemma length_built_processes: "length (built_processes b) = nat (sint (members b))"
  by (simp add: built_processes)

lemma length_built_members: "length (built_members b) = nat (sint (members b))"
  by (simp add: built_members)

text \<open>A loop counter below a Go int is that Go int's natural number.\<close>

lemma sint_of_nat_go_int: "i < 2 ^ 63 \<Longrightarrow> sint (of_nat i :: go_int) = int i"
proof -
  assume "i < 2 ^ 63"
  then have "int i < 2 ^ 63" by (metis of_nat_less_iff of_nat_numeral of_nat_power)
  then have "signed_take_bit 63 (int i) = int i"
    by (intro signed_take_bit_int_eq_self) simp_all
  then show ?thesis by (simp add: signed_of_nat)
qed

lemma sint_counter:
  fixes n :: go_int
  assumes "i < nat (sint n)"
  shows "sint (of_nat i :: go_int) = int i"
proof -
  have "sint n < 2 ^ 63" using sint_lt [of n] by simp
  with assms have "int i < 2 ^ 63" by linarith
  then have "i < 2 ^ 63" by (metis of_nat_less_iff of_nat_numeral of_nat_power)
  then show ?thesis by (rule sint_of_nat_go_int)
qed

lemma fmt_d_counter:
  fixes n :: go_int
  shows "i < nat (sint n) \<Longrightarrow> fmt_d (of_nat i) = digits i"
  by (simp add: fmt_d_def sint_counter)


section \<open>What Build returns\<close>

lemma makes_return_iff:
  "makes_return sz n \<longleftrightarrow>
     \<not> make_panics size_string n \<and> \<not> make_panics (size_member sz) n \<and>
     \<not> make_panics (size_process sz) n"
  by (auto simp: makes_return_def make_panics_def)

lemma Build_makeslice_panic:
  "\<not> makes_return sz (members b) \<Longrightarrow> Build sz z D m b = Inl MakesliceLenOutOfRange"
  by (auto simp: makes_return_iff Build_def Let_def)

text \<open>Whatever the sizes of the two structs, the slice of strings alone bounds the member
  count for which \<open>Build\<close> does not panic: \<open>2^44\<close> strings fill the allocation limit.\<close>

lemma makes_return_bound: "makes_return sz n \<Longrightarrow> sint n \<le> 17592186044416"
  by (simp add: makes_return_def size_string_def maxAlloc_def)

lemma Build_Inr:
  assumes "Build sz z D m b = Inr (doc, None)"
  obtains en a pb cb where
    "makes_return sz (members b)" and
    "0 \<le> sint (members b)" and "enabler b = Some en" and "en D = Inr a" and
    "m (previousAC b) = Inr pb" and
    "m (assemble b (built_members b) (built_processes b) a) = Inr cb" and
    "doc = (if pb \<noteq> cb
            then (assemble b (built_members b) (built_processes b) a)
                   \<lparr>AutomationConfig.Version := AutomationConfig.Version (previousAC b) + 1\<rparr>
            else assemble b (built_members b) (built_processes b) a)"
proof -
  have ok: "makes_return sz (members b)"
    using assms Build_makeslice_panic [of sz b z D m] by (cases "makes_return sz (members b)") simp_all
  then have "0 \<le> sint (members b)" by (simp add: makes_return_def)
  with ok assms that show ?thesis
    by (auto simp: makes_return_iff Build_def Let_def bytes_Compare_eq_0 assemble_def
        split: if_splits option.splits sum.splits prod.splits)
qed

lemma Build_returns:
  assumes "makes_return sz (members b)" and "enabler b = Some en" and "en D = Inr a"
    and "m (previousAC b) = Inr pb"
    and "m (assemble b (built_members b) (built_processes b) a) = Inr cb"
  shows "Build sz z D m b =
           Inr (if pb \<noteq> cb
                then (assemble b (built_members b) (built_processes b) a)
                       \<lparr>AutomationConfig.Version := AutomationConfig.Version (previousAC b) + 1\<rparr>
                else assemble b (built_members b) (built_processes b) a, None)"
  using assms
  by (auto simp: makes_return_iff Build_def Let_def bytes_Compare_eq_0 assemble_def
      split: if_splits option.splits sum.splits prod.splits)

lemma Build_total:
  assumes "makes_return sz (members b)" and "enabler b = Some en" and "en D = Inr a"
    and "\<And>ac. \<not> isl (m ac)"
  shows "\<exists>doc. Build sz z D m b = Inr (doc, None)"
proof -
  obtain pb where "m (previousAC b) = Inr pb"
    using assms(4) [of "previousAC b"] by (cases "m (previousAC b)") simp_all
  moreover obtain cb where "m (assemble b (built_members b) (built_processes b) a) = Inr cb"
    using assms(4) [of "assemble b (built_members b) (built_processes b) a"]
    by (cases "m (assemble b (built_members b) (built_processes b) a)") simp_all
  ultimately show ?thesis
    using Build_returns [OF assms(1-3)] by blast
qed

text \<open>What \<open>Build\<close> returns when the enabler returns an error.\<close>

lemma Build_Enable_error:
  assumes "makes_return sz (members b)" and "enabler b = Some en" and "en D = Inl err"
  shows "Build sz z D m b = Inr (zero_AutomationConfig z, Some err)"
  using assms by (simp add: makes_return_iff Build_def Let_def split: prod.splits)

lemma assemble_simps [simp]:
  "AutomationConfig.Version (assemble b ms ps a) = AutomationConfig.Version (previousAC b)"
  "Processes (assemble b ms ps a) = Some ps"
  "ReplicaSets (assemble b ms ps a) =
     Some [\<lparr>ReplicaSet.Id = name b, Members = Some ms, ProtocolVersion = ''1''\<rparr>]"
  "Versions (assemble b ms ps a) = versions b"
  "Options (assemble b ms ps a) = \<lparr>DownloadBase = ''/var/lib/mongodb-mms-automation''\<rparr>"
  "Auth (assemble b ms ps a) = a"
  "AutomationConfig.SSL (assemble b ms ps a) =
     \<lparr>ClientCertificateMode = ClientCertificateModeOptional,
      CAFilePath = (if isTLSEnabled b then tlsCAFile b else '''')\<rparr>"
  by (simp_all add: assemble_def Let_def)

lemma assemble_reset_Version:
  "(assemble b ms ps a)\<lparr>AutomationConfig.Version := AutomationConfig.Version (previousAC b)\<rparr> =
     assemble b ms ps a"
  by (simp add: assemble_def Let_def)

lemma Build_fields:
  assumes "Build sz z D m b = Inr (doc, None)"
  shows "Processes doc = Some (built_processes b)"
    and "ReplicaSets doc =
           Some [\<lparr>ReplicaSet.Id = name b, Members = Some (built_members b),
                  ProtocolVersion = ''1''\<rparr>]"
    and "Versions doc = versions b"
    and "AutomationConfig.SSL doc =
           \<lparr>ClientCertificateMode = ClientCertificateModeOptional,
            CAFilePath = (if isTLSEnabled b then tlsCAFile b else '''')\<rparr>"
  using assms by (auto elim!: Build_Inr split: if_splits)

text \<open>The version counter as a signed number: below the largest Go int, adding one is
  adding one.\<close>

lemma sint_increment:
  fixes v :: go_int
  assumes "sint v < 2 ^ 63 - 1"
  shows "sint (v + 1) = sint v + 1"
proof -
  have "- (2 ^ 63) \<le> sint v" using sint_ge [of v] by simp
  with assms have "signed_take_bit 63 (sint v + 1) = sint v + 1"
    by (intro signed_take_bit_int_eq_self) simp_all
  then show ?thesis by (simp add: sint_word_ariths)
qed


section \<open>The previous document\<close>

lemma process_opts_SetPrevious [simp]:
  "process_opts (SetPreviousAutomationConfig X b) = process_opts b"
  by (simp add: process_opts_def isTLSEnabled_def SetPreviousAutomationConfig_def cong: if_cong)

lemma derive_SetPrevious [simp]:
  "derive_hostnames (SetPreviousAutomationConfig X b) n = derive_hostnames b n"
  "derive_processes (SetPreviousAutomationConfig X b) hs = derive_processes b hs"
  by (simp_all add: derive_hostnames_map derive_processes_map)
    (simp_all add: SetPreviousAutomationConfig_def)

lemma SetPrevious_fields [simp]:
  "members (SetPreviousAutomationConfig X b) = members b"
  "enabler (SetPreviousAutomationConfig X b) = enabler b"
  "previousAC (SetPreviousAutomationConfig X b) = X"
  by (simp_all add: SetPreviousAutomationConfig_def)

lemma assemble_SetPrevious:
  "assemble (SetPreviousAutomationConfig X b) ms ps a =
     (assemble b ms ps a)\<lparr>AutomationConfig.Version := AutomationConfig.Version X\<rparr>"
  by (simp add: assemble_def Let_def SetPreviousAutomationConfig_def isTLSEnabled_def)

lemma Build_SetPrevious:
  assumes "Build sz z D m (SetPreviousAutomationConfig X b) = Inr (d, None)"
  obtains en a v pb cb where "makes_return sz (members b)" and "enabler b = Some en"
    and "en D = Inr a"
    and "m X = Inr pb"
    and "m ((assemble b (built_members b) (built_processes b) a)
              \<lparr>AutomationConfig.Version := AutomationConfig.Version X\<rparr>) = Inr cb"
    and "d = (assemble b (built_members b) (built_processes b) a)\<lparr>AutomationConfig.Version := v\<rparr>"
    and "v = (if pb \<noteq> cb then AutomationConfig.Version X + 1 else AutomationConfig.Version X)"
  using assms by (elim Build_Inr) (simp add: assemble_SetPrevious split: if_splits)


section \<open>The processes\<close>

lemma newProcess_process_opts:
  "newProcess n h v r (process_opts b) =
     \<lparr>Process.Name = n, HostName = h, Process.Version = v, ReplicaSetName = r,
      FeatureCompatibilityVersion = fcv b,
      Args26 = \<lparr>Net = \<lparr>Net.SSL =
        (if isTLSEnabled b
         then \<lparr>Mode = tlsMode b, CAFile = tlsCAFile b, PEMKeyFile = tlsCertAndKeyFile b,
               AllowConnectionsWithoutCertificate = True\<rparr>
         else zero_MongoDBSSL)\<rparr>\<rparr>\<rparr>"
  by (simp add: newProcess_def process_opts_def withFCV_def withTLS_def Let_def)

lemma nth_built_processes:
  assumes "i < nat (sint (members b))"
  shows "built_processes b ! i =
     \<lparr>Process.Name = name b @ ''-'' @ digits i,
      HostName = name b @ ''-'' @ digits i @ ''.'' @ domain b,
      Process.Version = mongodbVersion b, ReplicaSetName = name b,
      FeatureCompatibilityVersion = fcv b,
      Args26 = \<lparr>Net = \<lparr>Net.SSL =
        (if isTLSEnabled b
         then \<lparr>Mode = tlsMode b, CAFile = tlsCAFile b, PEMKeyFile = tlsCertAndKeyFile b,
               AllowConnectionsWithoutCertificate = True\<rparr>
         else zero_MongoDBSSL)\<rparr>\<rparr>\<rparr>"
  using assms fmt_d_counter [OF assms]
  by (simp add: built_processes newProcess_process_opts toHostName_def)

text \<open>\<open>digits\<close> writes the decimal numeral.\<close>

lemma of_char_digit_char: "d < 10 \<Longrightarrow> of_char (digit_char d) = 48 + d"
proof -
  assume "d < 10"
  then have "d \<in> {0, 1, 2, 3, 4, 5, 6, 7, 8, 9}" by auto
  then show ?thesis by (auto simp: digit_char_def)
qed

lemma decimal_value_digits: "decimal_value (digits n) = n"
proof (induction n rule: digits.induct)
  case (1 n)
  show ?case
  proof (cases "n < 10")
    case True
    then show ?thesis
      by (subst digits.simps) (simp add: decimal_value_def of_char_digit_char)
  next
    case False
    with 1 have "decimal_value (digits (n div 10)) = n div 10" by simp
    with False show ?thesis
      by (subst digits.simps) (simp add: decimal_value_def of_char_digit_char)
  qed
qed


section \<open>The catalog\<close>

lemma foldl_cond_update_upt:
  "k \<le> length xs \<Longrightarrow>
   foldl (\<lambda>ys i. if P (ys ! i) then ys[i := g (ys ! i)] else ys) xs [0..<k] =
     map (\<lambda>x. if P x then g x else x) (take k xs) @ drop k xs"
proof (induction k)
  case 0
  then show ?case by simp
next
  case (Suc k)
  then have k: "k < length xs" by simp
  let ?ys = "map (\<lambda>x. if P x then g x else x) (take k xs) @ drop k xs"
  have nth: "?ys ! k = xs ! k"
    using k by (simp add: nth_append)
  have "foldl (\<lambda>ys i. if P (ys ! i) then ys[i := g (ys ! i)] else ys) xs [0..<Suc k] =
      (if P (xs ! k) then ?ys[k := g (xs ! k)] else ?ys)"
    using Suc k by (simp add: nth)
  also have "\<dots> = map (\<lambda>x. if P x then g x else x) (take (Suc k) xs) @ drop (Suc k) xs"
    using k by (simp add: take_Suc_conv_app_nth list_update_append update_head_drop
        Cons_nth_drop_Suc)
  finally show ?case .
qed

lemma normalize_Modules_map:
  "normalize_Modules builds =
     map (\<lambda>bd. if Modules bd = None then bd\<lparr>Modules := Some []\<rparr> else bd) builds"
  unfolding normalize_Modules_def
  using foldl_cond_update_upt [of "length builds" builds "\<lambda>bd. Modules bd = None"
      "\<lambda>bd. bd\<lparr>Modules := Some []\<rparr>"]
  by simp

lemma versions_AddVersion:
  "versions (AddVersion v b) =
     append_slice (versions b)
       (v\<lparr>Builds := map_option (map (\<lambda>bd. if Modules bd = None then bd\<lparr>Modules := Some []\<rparr>
                                            else bd)) (Builds v)\<rparr>)"
proof (cases "Builds v")
  case None
  then have "versions (AddVersion v b) = append_slice (versions b) v"
    by (simp add: AddVersion_def)
  moreover have "v\<lparr>Builds := map_option f (Builds v)\<rparr> = v" for f
    using None by (cases v) simp
  ultimately show ?thesis by (simp only:)
next
  case (Some builds)
  then show ?thesis by (simp add: AddVersion_def normalize_Modules_map)
qed

lemma modules_non_null_normalized:
  "modules_non_null
     (v\<lparr>Builds := map_option (map (\<lambda>bd. if Modules bd = None then bd\<lparr>Modules := Some []\<rparr>
                                          else bd)) (Builds v)\<rparr>)"
  by (cases "Builds v") (auto simp: modules_non_null_def list_all_iff)

lemma catalog_ok_append:
  "catalog_ok c \<Longrightarrow> modules_non_null v \<Longrightarrow> catalog_ok (append_slice c v)"
  by (cases c) (simp_all add: catalog_ok_def)

lemma catalog_ok_apply_call:
  "catalog_ok (versions b) \<Longrightarrow> catalog_ok (versions (apply_call c b))"
proof (cases c)
  case (Call_AddVersion v)
  assume "catalog_ok (versions b)"
  then show ?thesis
    unfolding Call_AddVersion apply_call.simps versions_AddVersion
    by (rule catalog_ok_append) (rule modules_non_null_normalized)
qed (simp_all add: SetEnabler_def SetTopology_def SetMembers_def SetDomain_def SetName_def
    SetFCV_def SetTLS_def SetMongoDBVersion_def SetPreviousAutomationConfig_def)

lemma catalog_ok_foldl:
  "catalog_ok (versions b) \<Longrightarrow> catalog_ok (versions (foldl (\<lambda>b c. apply_call c b) b calls))"
  by (induction calls arbitrary: b) (simp_all add: catalog_ok_apply_call)

lemma catalog_ok_configured: "catalog_ok (versions (configured z calls))"
  unfolding configured_def
  by (rule catalog_ok_foldl) (simp add: catalog_ok_def NewBuilder_def)


section \<open>The version counter\<close>

text \<open>
  C1. Whenever \<open>Build\<close> returns a document and no error, both serializations have
  succeeded, and the document's \<open>Version\<close> is \<open>previousAC.Version + 1\<close> if the
  serialization of the newly assembled document (the returned one with its \<open>Version\<close> set
  back to \<open>previousAC.Version\<close>) differs from the serialization of the previous document,
  and \<open>previousAC.Version\<close> otherwise. The sum is Go's: on the largest int it wraps around;
  below it, \<open>sint_increment\<close> reads it as the signed number plus one.
\<close>

theorem Build_version_bump:
  assumes "Build sz z D m b = Inr (doc, None)"
  shows "\<exists>pb cb.
           m (previousAC b) = Inr pb \<and>
           m (doc\<lparr>AutomationConfig.Version := AutomationConfig.Version (previousAC b)\<rparr>) = Inr cb \<and>
           AutomationConfig.Version doc =
             (if cb \<noteq> pb then AutomationConfig.Version (previousAC b) + 1
              else AutomationConfig.Version (previousAC b))"
  using assms
  by (elim Build_Inr) (auto simp: assemble_reset_Version split: if_splits)

theorem Build_version_bump_witness:
  "Build sample_sizes '''' ''disabled'' sample_Marshal
     (SetTLS ''/ca.pem'' ''/server.pem'' ''requireSSL''
        (SetPreviousAutomationConfig (foo_document 5 zero_MongoDBSSL '''') (sample_Builder 2))) =
     Inr (foo_document 6 server_TLS ''/ca.pem'', None) \<and>
   AutomationConfig.Version (foo_document 6 server_TLS ''/ca.pem'') =
     AutomationConfig.Version (foo_document 5 zero_MongoDBSSL '''') + 1"
proof -
  have h: "Build sample_sizes '''' ''disabled'' sample_Marshal
     (SetTLS ''/ca.pem'' ''/server.pem'' ''requireSSL''
        (SetPreviousAutomationConfig (foo_document 5 zero_MongoDBSSL '''') (sample_Builder 2))) =
     Inr (foo_document 6 server_TLS ''/ca.pem'', None)"
    by code_simp
  from Build_version_bump [OF h] show ?thesis
    using h by (simp add: foo_document_def)
qed

text \<open>
  C2. \<open>Build\<close> is idempotent through the previous document: if \<open>Build\<close> with the previous
  document \<open>X\<close> returns \<open>Y\<close>, then \<open>Build\<close> with the previous document \<open>Y\<close> and the
  same other inputs returns \<open>Y\<close> again, with the same \<open>Version\<close> and every other field.
  The encoder is a function of the document, and whether it fails does not depend on the
  value of the version counter (an integer field is always serialized).
\<close>

theorem Build_idempotent:
  assumes enc: "\<And>ac v. isl (m (ac\<lparr>AutomationConfig.Version := v\<rparr>)) = isl (m ac)"
    and "Build sz z D m (SetPreviousAutomationConfig X b) = Inr (Y, None)"
  shows "Build sz z D m (SetPreviousAutomationConfig Y b) = Inr (Y, None)"
  using assms(2)
proof (rule Build_SetPrevious)
  fix en a v pb cb
  let ?A = "assemble b (built_members b) (built_processes b) a"
  assume b: "makes_return sz (members b)" "enabler b = Some en" "en D = Inr a"
    and cb: "m (?A\<lparr>AutomationConfig.Version := AutomationConfig.Version X\<rparr>) = Inr cb"
    and Y: "Y = ?A\<lparr>AutomationConfig.Version := v\<rparr>"
  have "\<not> isl (m Y)"
    using enc [of v ?A] enc [of "AutomationConfig.Version X" ?A] cb Y by simp
  then obtain yb where yb: "m Y = Inr yb"
    by (cases "m Y") simp_all
  have A: "assemble (SetPreviousAutomationConfig Y b)
             (built_members (SetPreviousAutomationConfig Y b))
             (built_processes (SetPreviousAutomationConfig Y b)) a = Y"
    using Y by (simp add: assemble_SetPrevious)
  show ?thesis
    using Build_returns [where b = "SetPreviousAutomationConfig Y b" and sz = sz and en = en
        and D = D and a = a and m = m and pb = yb and cb = yb and z = z] b yb A
    by simp
qed

theorem Build_idempotent_witness:
  "Build sample_sizes '''' ''disabled'' sample_Marshal
     (SetPreviousAutomationConfig (zero_AutomationConfig '''') (sample_Builder 2)) =
     Inr (foo_document 1 zero_MongoDBSSL '''', None) \<and>
   Build sample_sizes '''' ''disabled'' sample_Marshal
     (SetPreviousAutomationConfig (foo_document 1 zero_MongoDBSSL '''') (sample_Builder 2)) =
     Inr (foo_document 1 zero_MongoDBSSL '''', None)"
proof -
  have enc: "isl (sample_Marshal (ac\<lparr>AutomationConfig.Version := v\<rparr>)) = isl (sample_Marshal ac)"
    for ac v
    by (simp add: sample_Marshal_def)
  have h: "Build sample_sizes '''' ''disabled'' sample_Marshal
     (SetPreviousAutomationConfig (zero_AutomationConfig '''') (sample_Builder 2)) =
     Inr (foo_document 1 zero_MongoDBSSL '''', None)"
    by code_simp
  from Build_idempotent [of sample_Marshal, OF enc h] h show ?thesis by simp
qed

text \<open>
  C10. The previous document reaches the result through the version counter only: two
  calls of \<open>Build\<close> that differ in the previous document alone return documents that
  agree on every field but \<open>Version\<close>.
\<close>

theorem Build_previous_only_Version:
  assumes "Build sz z D m (SetPreviousAutomationConfig X b) = Inr (d1, None)"
    and "Build sz z D m (SetPreviousAutomationConfig Y b) = Inr (d2, None)"
  shows "d2 = d1\<lparr>AutomationConfig.Version := AutomationConfig.Version d2\<rparr>"
  using assms by (elim Build_SetPrevious) simp

theorem Build_previous_only_Version_witness:
  "Build sample_sizes '''' ''disabled'' sample_Marshal
     (SetPreviousAutomationConfig (zero_AutomationConfig '''') (sample_Builder 2)) =
     Inr (foo_document 1 zero_MongoDBSSL '''', None) \<and>
   Build sample_sizes '''' ''disabled'' sample_Marshal
     (SetPreviousAutomationConfig (foo_document 7 server_TLS ''/ca.pem'') (sample_Builder 2)) =
     Inr (foo_document 8 zero_MongoDBSSL '''', None) \<and>
   foo_document 8 zero_MongoDBSSL '''' =
     (foo_document 1 zero_MongoDBSSL '''')\<lparr>AutomationConfig.Version := 8\<rparr>"
proof -
  have h1: "Build sample_sizes '''' ''disabled'' sample_Marshal
     (SetPreviousAutomationConfig (zero_AutomationConfig '''') (sample_Builder 2)) =
     Inr (foo_document 1 zero_MongoDBSSL '''', None)"
    by code_simp
  have h2: "Build sample_sizes '''' ''disabled'' sample_Marshal
     (SetPreviousAutomationConfig (foo_document 7 server_TLS ''/ca.pem'') (sample_Builder 2)) =
     Inr (foo_document 8 zero_MongoDBSSL '''', None)"
    by code_simp
  from Build_previous_only_Version [OF h1 h2] h1 h2 show ?thesis
    by (simp add: foo_document_def)
qed


section \<open>Processes, members and the replica set\<close>

text \<open>
  C4. For a member count \<open>N \<ge> 0\<close> set by \<open>SetMembers\<close>, every document that \<open>Build\<close>
  returns has exactly \<open>N\<close> processes and one replica set with exactly \<open>N\<close> members; the
  member at index \<open>i\<close> has the id \<open>i\<close> and refers to the process at index \<open>i\<close>. \<open>Build\<close>
  returns a document when the three slices of length \<open>N\<close> can be made, the enabler
  succeeds and the encoder does not fail; when a slice of length \<open>N\<close> cannot be made
  (always so above \<open>2^44\<close>, \<open>makes_return_bound\<close>) it panics
  (\<open>Build_makeslice_panic\<close>) and there is no document.
\<close>

theorem Build_cardinality:
  assumes "0 \<le> sint N"
  shows "(makes_return sz N \<and> enabler b = Some en \<and> en D = Inr a \<and> (\<forall>ac. \<not> isl (m ac)) \<longrightarrow>
            (\<exists>doc. Build sz z D m (SetMembers N b) = Inr (doc, None))) \<and>
         (Build sz z D m (SetMembers N b) = Inr (doc, None) \<longrightarrow>
            (\<exists>ps ms rs.
               Processes doc = Some ps \<and> int (length ps) = sint N \<and>
               ReplicaSets doc = Some [rs] \<and> Members rs = Some ms \<and> int (length ms) = sint N \<and>
               (\<forall>i < length ms.
                  sint (ReplicaSetMember.Id (ms ! i)) = int i \<and> ProcessRef (ms ! i) = ps ! i)))"
proof (intro conjI impI)
  let ?b = "SetMembers N b"
  have N: "members ?b = N" and en: "enabler ?b = enabler b"
    by (simp_all add: SetMembers_def)
  {
    assume "makes_return sz N \<and> enabler b = Some en \<and> en D = Inr a \<and> (\<forall>ac. \<not> isl (m ac))"
    then show "\<exists>doc. Build sz z D m ?b = Inr (doc, None)"
      using Build_total [where b = ?b and sz = sz and en = en and D = D and a = a and m = m
          and z = z]
      by (simp add: N en)
  next
    assume built: "Build sz z D m ?b = Inr (doc, None)"
    have "Processes doc = Some (built_processes ?b)"
      and "ReplicaSets doc =
             Some [\<lparr>ReplicaSet.Id = name ?b, Members = Some (built_members ?b),
                    ProtocolVersion = ''1''\<rparr>]"
      using built by (rule Build_fields)+
    moreover have "int (length (built_processes ?b)) = sint N"
      and "int (length (built_members ?b)) = sint N"
      using assms length_built_processes [of ?b] length_built_members [of ?b]
      by (simp_all add: N)
    moreover have "sint (ReplicaSetMember.Id (built_members ?b ! i)) = int i \<and>
        ProcessRef (built_members ?b ! i) = built_processes ?b ! i"
      if "i < length (built_members ?b)" for i
    proof -
      from that have i: "i < nat (sint (members ?b))" by (simp add: length_built_members)
      then have "built_members ?b ! i = newReplicaSetMember (built_processes ?b ! i) (of_nat i)"
        by (subst built_members) simp
      then show ?thesis using sint_counter [OF i] by (simp add: newReplicaSetMember_def)
    qed
    ultimately show "\<exists>ps ms rs.
        Processes doc = Some ps \<and> int (length ps) = sint N \<and>
        ReplicaSets doc = Some [rs] \<and> Members rs = Some ms \<and> int (length ms) = sint N \<and>
        (\<forall>i < length ms.
           sint (ReplicaSetMember.Id (ms ! i)) = int i \<and> ProcessRef (ms ! i) = ps ! i)"
      by simp
  }
qed

theorem Build_cardinality_witness:
  "0 \<le> sint (2 :: go_int) \<and> makes_return sample_sizes 2 \<and>
   Build sample_sizes '''' ''disabled'' sample_Marshal (SetMembers 2 (sample_Builder 0)) =
     Inr (foo_document 1 zero_MongoDBSSL '''', None) \<and>
   (\<exists>ps ms rs.
      Processes (foo_document 1 zero_MongoDBSSL '''') = Some ps \<and> int (length ps) = 2 \<and>
      ReplicaSets (foo_document 1 zero_MongoDBSSL '''') = Some [rs] \<and>
      Members rs = Some ms \<and> int (length ms) = 2 \<and>
      sint (ReplicaSetMember.Id (ms ! 0)) = 0 \<and> ProcessRef (ms ! 0) = ps ! 0 \<and>
      sint (ReplicaSetMember.Id (ms ! 1)) = 1 \<and> ProcessRef (ms ! 1) = ps ! 1)"
proof -
  have n: "0 \<le> sint (2 :: go_int)" by simp
  have ok: "makes_return sample_sizes 2" by code_simp
  have h: "Build sample_sizes '''' ''disabled'' sample_Marshal (SetMembers 2 (sample_Builder 0)) =
     Inr (foo_document 1 zero_MongoDBSSL '''', None)"
    by code_simp
  from Build_cardinality [OF n, where b = "sample_Builder 0" and D = "''disabled''"
      and m = sample_Marshal and doc = "foo_document 1 zero_MongoDBSSL ''''"
      and sz = sample_sizes and z = "''''"] h
  obtain ps ms rs where
    r: "Processes (foo_document 1 zero_MongoDBSSL '''') = Some ps" "int (length ps) = 2"
      "ReplicaSets (foo_document 1 zero_MongoDBSSL '''') = Some [rs]"
      "Members rs = Some ms" "int (length ms) = 2"
    and all: "\<forall>i < length ms.
      sint (ReplicaSetMember.Id (ms ! i)) = int i \<and> ProcessRef (ms ! i) = ps ! i"
    by auto
  from r(5) have "0 < length ms" "1 < length ms" by simp_all
  with all have "sint (ReplicaSetMember.Id (ms ! 0)) = 0 \<and> ProcessRef (ms ! 0) = ps ! 0"
    and "sint (ReplicaSetMember.Id (ms ! 1)) = 1 \<and> ProcessRef (ms ! 1) = ps ! 1"
    by fastforce+
  with n ok h r show ?thesis by blast
qed

text \<open>
  C6. For every index \<open>i\<close> below the member count, the process at index \<open>i\<close> of a
  returned document has the hostname \<open><name>-<i>.<domain>\<close> and the process name
  \<open><name>-<i>\<close>, where \<open><i>\<close> is the decimal numeral of \<open>i\<close> (\<open>decimal_value_digits\<close>).
\<close>

theorem Build_hostnames:
  assumes "Build sz z D m b = Inr (doc, None)" and "i < nat (sint (members b))"
  shows "\<exists>ps. Processes doc = Some ps \<and> i < length ps \<and>
           HostName (ps ! i) = name b @ ''-'' @ digits i @ ''.'' @ domain b \<and>
           Process.Name (ps ! i) = name b @ ''-'' @ digits i"
  using Build_fields(1) [OF assms(1)] assms(2)
  by (simp add: nth_built_processes length_built_processes)

theorem Build_hostnames_witness:
  "\<exists>doc ps. Build sample_sizes '''' ''disabled'' sample_Marshal (sample_Builder 12) =
       Inr (doc, None) \<and>
     Processes doc = Some ps \<and> 11 < length ps \<and>
     HostName (ps ! 11) = ''foo-11.example.com'' \<and> Process.Name (ps ! 11) = ''foo-11''"
proof -
  define doc where
    "doc = fst (projr (Build sample_sizes '''' ''disabled'' sample_Marshal (sample_Builder 12)))"
  have h: "Build sample_sizes '''' ''disabled'' sample_Marshal (sample_Builder 12) =
      Inr (doc, None)"
    unfolding doc_def by code_simp
  have i: "11 < nat (sint (members (sample_Builder 12)))" by code_simp
  have n: "name (sample_Builder 12) = ''foo''" "domain (sample_Builder 12) = ''example.com''"
    by code_simp+
  have d: "digits 11 = ''11''" by code_simp
  from Build_hostnames [OF h i] show ?thesis using h by (simp add: n d)
qed

text \<open>
  C3. In a returned document, every process has the TLS block
  \<open>{mode, CA file, key file, AllowConnectionsWithoutCertificate = true}\<close> if the CA file
  path is not empty, the cert-and-key file path is not empty and the mode is not the
  disabled one; under any other combination its TLS block is the zero value, no field
  set. So the block is populated if and only if the three conditions hold.
\<close>

theorem Build_process_TLS:
  assumes "Build sz z D m b = Inr (doc, None)"
  shows "\<exists>ps. Processes doc = Some ps \<and>
           (\<forall>p \<in> set ps.
              Net.SSL (Net (Args26 p)) =
                (if tlsCAFile b \<noteq> '''' \<and> tlsCertAndKeyFile b \<noteq> '''' \<and> tlsMode b \<noteq> SSLModeDisabled
                 then \<lparr>Mode = tlsMode b, CAFile = tlsCAFile b, PEMKeyFile = tlsCertAndKeyFile b,
                       AllowConnectionsWithoutCertificate = True\<rparr>
                 else zero_MongoDBSSL) \<and>
              (Net.SSL (Net (Args26 p)) \<noteq> zero_MongoDBSSL \<longleftrightarrow>
                 tlsCAFile b \<noteq> '''' \<and> tlsCertAndKeyFile b \<noteq> '''' \<and> tlsMode b \<noteq> SSLModeDisabled))"
proof -
  have "Processes doc = Some (built_processes b)"
    using assms by (rule Build_fields)
  moreover have "Net.SSL (Net (Args26 p)) =
      (if isTLSEnabled b
       then \<lparr>Mode = tlsMode b, CAFile = tlsCAFile b, PEMKeyFile = tlsCertAndKeyFile b,
             AllowConnectionsWithoutCertificate = True\<rparr>
       else zero_MongoDBSSL)" if "p \<in> set (built_processes b)" for p
  proof -
    from that obtain i where "i < nat (sint (members b))" "p = built_processes b ! i"
      by (metis in_set_conv_nth length_built_processes)
    then show ?thesis by (simp add: nth_built_processes)
  qed
  ultimately show ?thesis
    by (auto simp: isTLSEnabled_def zero_MongoDBSSL_def)
qed

theorem Build_process_TLS_witness:
  "Build sample_sizes '''' ''disabled'' sample_Marshal
     (SetTLS ''/ca.pem'' ''/server.pem'' ''requireSSL'' (sample_Builder 2)) =
     Inr (foo_document 1 server_TLS ''/ca.pem'', None) \<and>
   Processes (foo_document 1 server_TLS ''/ca.pem'') =
     Some [foo_Process ''0'' server_TLS, foo_Process ''1'' server_TLS] \<and>
   Net.SSL (Net (Args26 (foo_Process ''0'' server_TLS))) = server_TLS \<and>
   Net.SSL (Net (Args26 (foo_Process ''1'' server_TLS))) = server_TLS \<and>
   server_TLS \<noteq> zero_MongoDBSSL"
proof -
  let ?b = "SetTLS ''/ca.pem'' ''/server.pem'' ''requireSSL'' (sample_Builder 2)
              :: (string, string) Builder"
  have h: "Build sample_sizes '''' ''disabled'' sample_Marshal ?b =
      Inr (foo_document 1 server_TLS ''/ca.pem'', None)"
    by code_simp
  have tls: "tlsCAFile ?b = ''/ca.pem''" "tlsCertAndKeyFile ?b = ''/server.pem''"
    "tlsMode ?b = ''requireSSL''"
    by (simp_all add: SetTLS_def)
  have ps: "Processes (foo_document 1 server_TLS ''/ca.pem'') =
      Some [foo_Process ''0'' server_TLS, foo_Process ''1'' server_TLS]"
    by (simp add: foo_document_def)
  from Build_process_TLS [OF h] obtain ps' where
    "Processes (foo_document 1 server_TLS ''/ca.pem'') = Some ps'" and
    all: "\<forall>p \<in> set ps'.
       Net.SSL (Net (Args26 p)) =
         (if tlsCAFile ?b \<noteq> '''' \<and> tlsCertAndKeyFile ?b \<noteq> '''' \<and> tlsMode ?b \<noteq> SSLModeDisabled
          then \<lparr>Mode = tlsMode ?b, CAFile = tlsCAFile ?b, PEMKeyFile = tlsCertAndKeyFile ?b,
                AllowConnectionsWithoutCertificate = True\<rparr>
          else zero_MongoDBSSL) \<and>
       (Net.SSL (Net (Args26 p)) \<noteq> zero_MongoDBSSL \<longleftrightarrow>
          tlsCAFile ?b \<noteq> '''' \<and> tlsCertAndKeyFile ?b \<noteq> '''' \<and> tlsMode ?b \<noteq> SSLModeDisabled)"
    by blast
  with ps have ps': "ps' = [foo_Process ''0'' server_TLS, foo_Process ''1'' server_TLS]"
    by simp
  have "\<forall>p \<in> set ps'.
      Net.SSL (Net (Args26 p)) = server_TLS \<and> Net.SSL (Net (Args26 p)) \<noteq> zero_MongoDBSSL"
    using all unfolding tls by (simp add: SSLModeDisabled_def server_TLS_def zero_MongoDBSSL_def)
  then have "Net.SSL (Net (Args26 (foo_Process ''0'' server_TLS))) = server_TLS"
    and "Net.SSL (Net (Args26 (foo_Process ''1'' server_TLS))) = server_TLS"
    and "server_TLS \<noteq> zero_MongoDBSSL"
    unfolding ps' by auto
  with h ps show ?thesis by blast
qed

text \<open>
  C9. A returned document contains exactly one replica set, for every member count
  (zero included): its id is the deployment name, its members are the members derived
  from the processes of the document, in their order, and its protocol version is the
  string \<open>1\<close>.
\<close>

theorem Build_single_ReplicaSet:
  assumes "Build sz z D m b = Inr (doc, None)"
  shows "\<exists>ps. Processes doc = Some ps \<and> length ps = nat (sint (members b)) \<and>
           ReplicaSets doc =
             Some [\<lparr>ReplicaSet.Id = name b,
                    Members = Some (map (\<lambda>i. newReplicaSetMember (ps ! i) (of_nat i))
                                      [0..<nat (sint (members b))]),
                    ProtocolVersion = ''1''\<rparr>]"
  using Build_fields(1,2) [OF assms] built_members [of b] length_built_processes [of b]
  by simp

theorem Build_single_ReplicaSet_witness:
  "\<exists>doc. Build sample_sizes '''' ''disabled'' sample_Marshal (sample_Builder 0) =
       Inr (doc, None) \<and>
     Processes doc = Some [] \<and>
     ReplicaSets doc = Some [\<lparr>ReplicaSet.Id = ''foo'', Members = Some [], ProtocolVersion = ''1''\<rparr>]"
proof -
  define doc where
    "doc = fst (projr (Build sample_sizes '''' ''disabled'' sample_Marshal (sample_Builder 0)))"
  have h: "Build sample_sizes '''' ''disabled'' sample_Marshal (sample_Builder 0) =
      Inr (doc, None)"
    unfolding doc_def by code_simp
  have n: "name (sample_Builder 0) = ''foo''" "nat (sint (members (sample_Builder 0))) = 0"
    by code_simp+
  from Build_single_ReplicaSet [OF h] show ?thesis using h by (simp add: n)
qed


section \<open>Authentication and the agent's SSL\<close>

text \<open>
  C5. If \<open>Enable\<close>, called on the disabled baseline, returns an error, then \<open>Build\<close>
  returns that very error together with the zero \<open>AutomationConfig\<close>, and nothing of the
  assembled document. The call is reached exactly when the three slices can be made;
  otherwise \<open>make\<close> has panicked before the call and \<open>Build\<close> returns nothing.
\<close>

theorem Build_enabler_failure:
  assumes "enabler b = Some en" and "en D = Inl err"
  shows "(makes_return sz (members b) \<longrightarrow>
            Build sz z D m b = Inr (zero_AutomationConfig z, Some err)) \<and>
         (\<not> makes_return sz (members b) \<longrightarrow>
            Build sz z D m b = Inl MakesliceLenOutOfRange)"
  using assms Build_Enable_error [of sz b en D err z m] Build_makeslice_panic [of sz b z D m]
  by simp

theorem Build_enabler_failure_witness:
  "enabler (SetEnabler (Some (\<lambda>a. Inl ''no policy'')) (sample_Builder 2)) \<noteq> None \<and>
   makes_return sample_sizes (members (SetEnabler (Some (\<lambda>a. Inl ''no policy''))
     (sample_Builder 2))) \<and>
   Build sample_sizes '''' ''disabled'' sample_Marshal
     (SetEnabler (Some (\<lambda>a. Inl ''no policy'')) (sample_Builder 2)) =
     Inr (zero_AutomationConfig '''', Some ''no policy'') \<and>
   Build sample_sizes '''' ''disabled'' sample_Marshal
     (SetEnabler (Some (\<lambda>a. Inl ''no policy'')) (sample_Builder 4611686018427387904)) =
     Inl MakesliceLenOutOfRange"
proof -
  let ?b = "SetEnabler (Some (\<lambda>a. Inl ''no policy'')) (sample_Builder 2)
              :: (string, string) Builder"
  let ?c = "SetEnabler (Some (\<lambda>a. Inl ''no policy'')) (sample_Builder 4611686018427387904)
              :: (string, string) Builder"
  have okb: "makes_return sample_sizes (members ?b)"
    and okc: "\<not> makes_return sample_sizes (members ?c)"
    by code_simp+
  have enb: "enabler ?b = Some (\<lambda>a. Inl ''no policy'')"
    and enc: "enabler ?c = Some (\<lambda>a. Inl ''no policy'')"
    by (simp_all add: SetEnabler_def)
  have err: "(\<lambda>a. Inl ''no policy'' :: string + string) ''disabled'' = Inl ''no policy''"
    by simp
  from Build_enabler_failure [OF enb err, where m = sample_Marshal and sz = sample_sizes
      and z = "''''"]
    Build_enabler_failure [OF enc err, where m = sample_Marshal and sz = sample_sizes
      and z = "''''"] okb okc enb
  show ?thesis by simp
qed

text \<open>
  C7. In a returned document, \<open>SSL.CAFilePath\<close> is the configured CA file path if the CA
  file path is not empty, the cert-and-key file path is not empty and the mode is not the
  disabled one, and empty otherwise; so it is set if and only if TLS is fully enabled.
  \<open>SSL.ClientCertificateMode\<close> is always the optional mode.
\<close>

theorem Build_agent_SSL:
  assumes "Build sz z D m b = Inr (doc, None)"
  shows "CAFilePath (AutomationConfig.SSL doc) =
           (if tlsCAFile b \<noteq> '''' \<and> tlsCertAndKeyFile b \<noteq> '''' \<and> tlsMode b \<noteq> SSLModeDisabled
            then tlsCAFile b else '''') \<and>
         (CAFilePath (AutomationConfig.SSL doc) \<noteq> '''' \<longleftrightarrow>
            tlsCAFile b \<noteq> '''' \<and> tlsCertAndKeyFile b \<noteq> '''' \<and> tlsMode b \<noteq> SSLModeDisabled) \<and>
         ClientCertificateMode (AutomationConfig.SSL doc) = ClientCertificateModeOptional"
  using Build_fields(4) [OF assms] by (simp add: isTLSEnabled_def)

theorem Build_agent_SSL_witness:
  "Build sample_sizes '''' ''disabled'' sample_Marshal
     (SetTLS ''/ca.pem'' ''/server.pem'' ''preferSSL'' (sample_Builder 0)) =
     Inr (\<lparr>AutomationConfig.Version = 1, Processes = Some [],
           ReplicaSets = Some [\<lparr>ReplicaSet.Id = ''foo'', Members = Some [],
                                 ProtocolVersion = ''1''\<rparr>],
           Versions = Some [],
           Options = \<lparr>DownloadBase = ''/var/lib/mongodb-mms-automation''\<rparr>,
           Auth = ''disabled'',
           AutomationConfig.SSL = \<lparr>ClientCertificateMode = ''Optional'',
                                    CAFilePath = ''/ca.pem''\<rparr>\<rparr>, None) \<and>
   ClientCertificateModeOptional = ''Optional''"
proof -
  have h: "Build sample_sizes '''' ''disabled'' sample_Marshal
     (SetTLS ''/ca.pem'' ''/server.pem'' ''preferSSL'' (sample_Builder 0)) =
     Inr (\<lparr>AutomationConfig.Version = 1, Processes = Some [],
           ReplicaSets = Some [\<lparr>ReplicaSet.Id = ''foo'', Members = Some [],
                                 ProtocolVersion = ''1''\<rparr>],
           Versions = Some [],
           Options = \<lparr>DownloadBase = ''/var/lib/mongodb-mms-automation''\<rparr>,
           Auth = ''disabled'',
           AutomationConfig.SSL = \<lparr>ClientCertificateMode = ''Optional'',
                                    CAFilePath = ''/ca.pem''\<rparr>\<rparr>, None)"
    by code_simp
  from Build_agent_SSL [OF h] h show ?thesis by simp
qed


section \<open>The catalog of installable versions\<close>

text \<open>
  C8. \<open>AddVersion\<close> appends the entry it is given with every nil module list of its build
  variants replaced by an empty one, and nothing else changed. So in every document
  returned by \<open>Build\<close> on a builder configured through its setters, the catalog is not
  nil and every build variant of every entry carries a module list that is not nil.
\<close>

theorem AddVersion_modules_non_null:
  "versions (AddVersion v b) =
     append_slice (versions b)
       (v\<lparr>Builds := map_option (map (\<lambda>bd. if Modules bd = None then bd\<lparr>Modules := Some []\<rparr>
                                            else bd)) (Builds v)\<rparr>) \<and>
   (Build sz z D m (configured z0 calls) = Inr (doc, None) \<longrightarrow> catalog_ok (Versions doc))"
  using versions_AddVersion [of v b] catalog_ok_configured [of z0 calls]
    Build_fields(3) [of sz z D m "configured z0 calls" doc]
  by simp

theorem AddVersion_modules_non_null_witness:
  "\<exists>doc. Build sample_sizes '''' ''disabled'' sample_Marshal
       (configured '''' [Call_SetEnabler (Some Inr), Call_AddVersion sample_version]) =
       Inr (doc, None) \<and>
     Versions doc = Some [stored_version] \<and> catalog_ok (Versions doc)"
proof -
  let ?b = "configured '''' [Call_SetEnabler (Some Inr), Call_AddVersion sample_version]
              :: (string, string) Builder"
  define doc where
    "doc = fst (projr (Build sample_sizes '''' ''disabled'' sample_Marshal ?b))"
  have h: "Build sample_sizes '''' ''disabled'' sample_Marshal ?b = Inr (doc, None)"
    unfolding doc_def by code_simp
  have v: "versions ?b = Some [stored_version]" by code_simp
  from AddVersion_modules_non_null [where v = sample_version and b = ?b and D = "''disabled''"
      and m = sample_Marshal and ?z0.0 = "''''" and sz = sample_sizes and z = "''''"
      and calls = "[Call_SetEnabler (Some Inr), Call_AddVersion sample_version]" and doc = doc]
    Build_fields(3) [OF h] h v
  show ?thesis by simp
qed

end
